theory Spec2Isabelle
  imports Main "HOL-Library.Sublist" "HOL-Library.Multiset"
begin

section \<open>JavaScript values and strings\<close>

text \<open>
  The helpers of \<^verbatim>\<open>Dashboard.tsx\<close> are typed \<^verbatim>\<open>(url: string)\<close> but guard
  against every other value (\<^verbatim>\<open>!url || typeof url !== 'string'\<close>), and the record
  they read comes out of \<^verbatim>\<open>snapshot.val()\<close>, which is \<^verbatim>\<open>any\<close>. A response is
  therefore a JavaScript value. A string is a list of code units; the characters that
  matter to the code are ASCII.
\<close>

datatype jsval =
    JNull
  | JUndefined
  | JBool bool
  | JNum int
  | JObject
  | JStr string

text \<open>\<^verbatim>\<open>String.prototype.includes\<close>: the needle occurs as a contiguous run.\<close>

fun includes_str :: "string \<Rightarrow> string \<Rightarrow> bool" where
  "includes_str [] t = (t = [])"
| "includes_str (c # cs) t = (prefix t (c # cs) \<or> includes_str cs t)"

text \<open>
  The white space of \<^verbatim>\<open>\s\<close> and of \<^verbatim>\<open>trim()\<close> (tab, line feed, vertical tab,
  form feed, carriage return, space, no-break space), and the line terminators that
  \<^verbatim>\<open>.\<close> refuses; both restricted to code units below 256.
\<close>

definition is_space :: "char \<Rightarrow> bool" where
  "is_space c = (of_char c \<in> {9, 10, 11, 12, 13, 32, 160 :: nat})"

definition line_terminator :: "char \<Rightarrow> bool" where
  "line_terminator c = (of_char c \<in> {10, 13 :: nat})"

definition trim :: "string \<Rightarrow> string" where
  "trim s = rev (dropWhile is_space (rev (dropWhile is_space s)))"

text \<open>
  \<^verbatim>\<open>s.split(d)\<close> for a one-character separator: never empty, \<^verbatim>\<open>"".split('|')\<close> is
  \<^verbatim>\<open>[""]\<close>. The second branch of the inner case is never taken.
\<close>

fun split_on :: "char \<Rightarrow> string \<Rightarrow> string list" where
  "split_on d [] = [[]]"
| "split_on d (c # cs) =
     (if c = d then [] # split_on d cs
      else (case split_on d cs of x # xs \<Rightarrow> (c # x) # xs | [] \<Rightarrow> [[c]]))"

section \<open>Attachment URLs\<close>

definition isFirebaseUrl :: "jsval \<Rightarrow> bool" where
  "isFirebaseUrl url =
     (case url of
        JStr s \<Rightarrow> if s = [] then False else includes_str s ''firebasestorage.googleapis.com''
      | _ \<Rightarrow> False)"

definition isFirebaseVoiceUrl :: "jsval \<Rightarrow> bool" where
  "isFirebaseVoiceUrl url =
     (if \<not> isFirebaseUrl url then False
      else (case url of
              JStr s \<Rightarrow> (includes_str s ''/recordings/'' \<or> includes_str s ''recording_'') \<and> includes_str s ''.mp3''
            | _ \<Rightarrow> False))"

definition isFirebaseImageUrl :: "jsval \<Rightarrow> bool" where
  "isFirebaseImageUrl url =
     (if \<not> isFirebaseUrl url then False
      else (case url of
              JStr s \<Rightarrow>
                (includes_str s ''/selfies/'' \<or> includes_str s ''photo_'' \<or> includes_str s ''image_''
                   \<or> includes_str s ''selfie_'')
                \<and> (includes_str s ''.jpg'' \<or> includes_str s ''.jpeg'' \<or> includes_str s ''.png'')
            | _ \<Rightarrow> False))"

section \<open>Map links\<close>

record coord =
  lat :: string
  lng :: string

text \<open>The character class \<^verbatim>\<open>[\d.-]\<close>.\<close>

definition coord_char :: "char \<Rightarrow> bool" where
  "coord_char c = (c \<in> set ''0123456789.-'')"

text \<open>
  \<^verbatim>\<open>/q=([\d.-]+),([\d.-]+)/\<close> tried at the start of the string. Both groups are
  greedy; the comma is outside the class, so the first group cannot end earlier than its
  longest run and no backtracking changes the result.
\<close>

definition match_q_at :: "string \<Rightarrow> coord option" where
  "match_q_at s =
     (if prefix ''q='' s then
        (let r = drop 2 s; la = takeWhile coord_char r in
         if la = [] then None
         else (case dropWhile coord_char r of
                 [] \<Rightarrow> None
               | c # r' \<Rightarrow>
                   if c = CHR '','' then
                     (let ln = takeWhile coord_char r' in
                      if ln = [] then None else Some \<lparr>lat = la, lng = ln\<rparr>)
                   else None))
      else None)"

text \<open>\<^verbatim>\<open>url.match(re)\<close> without the g flag: the leftmost position where the pattern matches.\<close>

fun match_q :: "string \<Rightarrow> coord option" where
  "match_q [] = None"
| "match_q (c # cs) =
     (case match_q_at (c # cs) of Some m \<Rightarrow> Some m | None \<Rightarrow> match_q cs)"

definition extractMapCoordinates :: "jsval \<Rightarrow> coord option" where
  "extractMapCoordinates url =
     (case url of
        JStr s \<Rightarrow>
          if s = [] then None
          else if includes_str s ''google.com/maps'' \<and> includes_str s ''q='' then
            (case match_q s of Some m \<Rightarrow> Some m | None \<Rightarrow> None)
          else None
      | _ \<Rightarrow> None)"

section \<open>Paths\<close>

text \<open>
  \<^verbatim>\<open>/Path:\s*(.+)/\<close> tried at the start of the string; the result is group 1.
  \<^verbatim>\<open>\s*\<close> first takes the whole run of white space. When a character follows, it is
  not white space, hence not a line terminator, and the group runs from there to the end
  of the line. When the string ends there, the engine backtracks: \<^verbatim>\<open>\s*\<close> gives back
  its characters from the right until one of them is not a line terminator, and the group
  is that single character.
\<close>

definition match_Path_at :: "string \<Rightarrow> string option" where
  "match_Path_at s =
     (if prefix ''Path:'' s then
        (let r = drop 5 s; w = takeWhile is_space r in
         (case dropWhile is_space r of
            c # r' \<Rightarrow> Some (takeWhile (\<lambda>x. \<not> line_terminator x) (c # r'))
          | [] \<Rightarrow>
              (case find (\<lambda>x. \<not> line_terminator x) (rev w) of
                 Some x \<Rightarrow> Some [x]
               | None \<Rightarrow> None)))
      else None)"

fun match_Path :: "string \<Rightarrow> string option" where
  "match_Path [] = None"
| "match_Path (c # cs) =
     (case match_Path_at (c # cs) of Some g \<Rightarrow> Some g | None \<Rightarrow> match_Path cs)"

text \<open>
  The body of the \<^verbatim>\<open>map\<close> callback: \<^verbatim>\<open>const [lat, lng] = pair.split(',')\<close> takes the
  first two pieces and ignores any further one; \<^verbatim>\<open>lat && lng\<close> asks both to be
  non-empty, before the trim.
\<close>

definition parse_pair :: "string \<Rightarrow> coord option" where
  "parse_pair pair =
     (case split_on CHR '','' pair of
        la # ln # _ \<Rightarrow>
          if la \<noteq> [] \<and> ln \<noteq> [] then Some \<lparr>lat = trim la, lng = trim ln\<rparr> else None
      | _ \<Rightarrow> None)"

text \<open>\<^verbatim>\<open>.filter(coord => coord !== null)\<close>\<close>

fun filter_non_null :: "'a option list \<Rightarrow> 'a list" where
  "filter_non_null [] = []"
| "filter_non_null (None # xs) = filter_non_null xs"
| "filter_non_null (Some x # xs) = x # filter_non_null xs"

definition extractPathCoordinates :: "jsval \<Rightarrow> coord list option" where
  "extractPathCoordinates text =
     (case text of
        JStr s \<Rightarrow>
          if s = [] then None
          else if includes_str s ''Path:'' then
            (case match_Path s of
               Some g \<Rightarrow>
                 if g \<noteq> [] then
                   (let coordsText = trim g; coordPairs = split_on CHR ''|'' coordsText in
                    if 2 \<le> length coordPairs then
                      (let coordinates = filter_non_null (map parse_pair coordPairs) in
                       if 2 \<le> length coordinates then Some coordinates else None)
                    else None)
                 else None
             | None \<Rightarrow> None)
          else None
      | _ \<Rightarrow> None)"

section \<open>Classification of a response\<close>

text \<open>JavaScript truthiness of a value.\<close>

fun truthy :: "jsval \<Rightarrow> bool" where
  "truthy JNull = False"
| "truthy JUndefined = False"
| "truthy (JBool b) = b"
| "truthy (JNum n) = (n \<noteq> 0)"
| "truthy JObject = True"
| "truthy (JStr s) = (s \<noteq> [])"

text \<open>
  The response bubble, \<^verbatim>\<open>{msg.response && ( ... )}\<close>: for a falsy response nothing is
  rendered and no branch is evaluated (\<open>None\<close>); otherwise the conditional chain picks
  one branch, in the order of the source, and each branch keeps what the source hands to
  the component it renders.
\<close>

datatype content =
    is_VoiceNote: VoiceNote jsval
  | is_Image: Image jsval
  | is_GenericAttachment: GenericAttachment jsval
  | is_Path: Path "coord list"
  | is_SinglePoint: SinglePoint coord
  | is_PlainText: PlainText jsval

definition classify :: "jsval \<Rightarrow> content option" where
  "classify response =
     (if \<not> truthy response then None
      else Some
        (if isFirebaseVoiceUrl response then VoiceNote response
         else if isFirebaseImageUrl response then Image response
         else if isFirebaseUrl response then GenericAttachment response
         else (case extractPathCoordinates response of
                 Some pts \<Rightarrow> Path pts
               | None \<Rightarrow>
                   (case extractMapCoordinates response of
                      Some c \<Rightarrow> SinglePoint c
                    | None \<Rightarrow> PlainText response))))"






section \<open>Commands, delivery status and stored records\<close>

datatype ServerCommands =
    TakeSelfie
  | GetVoiceNote
  | GetSimNumbers
  | GetLocation
  | GetLocationTimeline
  | SendNotification

fun command_str :: "ServerCommands \<Rightarrow> string" where
  "command_str TakeSelfie = ''TakeSelfie''"
| "command_str GetVoiceNote = ''GetVoiceNote''"
| "command_str GetSimNumbers = ''GetSimNumbers''"
| "command_str GetLocation = ''GetLocation''"
| "command_str GetLocationTimeline = ''GetLocationTimeline''"
| "command_str SendNotification = ''SendNotification''"

datatype MessageStatus = BEFORE_UPLOADED | UPLOADED | DELIVERED

fun status_str :: "MessageStatus \<Rightarrow> string" where
  "status_str BEFORE_UPLOADED = ''BEFORE_UPLOADED''"
| "status_str UPLOADED = ''UPLOADED''"
| "status_str DELIVERED = ''DELIVERED''"

text \<open>
  The interface \<^verbatim>\<open>ChatMessage\<close>, every field optional: a stored record is whatever the
  database holds. Timestamps are the integers of \<^verbatim>\<open>Date.now()\<close>.
\<close>

record chat_message =
  key :: "string option"
  command :: "string option"
  commandTimestamp :: "int option"
  status :: "string option"
  response :: "string option"
  responseTimestamp :: "int option"
  timestamp :: "int option"

definition no_fields :: chat_message where
  "no_fields = \<lparr>key = None, command = None, commandTimestamp = None, status = None,
     response = None, responseTimestamp = None, timestamp = None\<rparr>"

text \<open>
  What a slot of the snapshot can hold: nothing usable (\<^verbatim>\<open>null\<close>), a primitive
  (string, number, boolean) or an object.
\<close>

datatype raw = RNull | RPrim | RObj chat_message

datatype js_error = TypeError | TransportFailure

text \<open>JavaScript truthiness of an optional string and of an optional number.\<close>

definition truthy_str :: "string option \<Rightarrow> bool" where
  "truthy_str x = (case x of Some s \<Rightarrow> s \<noteq> [] | None \<Rightarrow> False)"

definition truthy_num :: "int option \<Rightarrow> bool" where
  "truthy_num x = (case x of Some n \<Rightarrow> n \<noteq> 0 | None \<Rightarrow> False)"

section \<open>The conversation projector\<close>

text \<open>
  The callback of \<^verbatim>\<open>Object.entries(data).map\<close>. Reading \<^verbatim>\<open>msgData.key\<close> of
  \<^verbatim>\<open>null\<close> throws a TypeError; of a primitive it is \<^verbatim>\<open>undefined\<close>, and the spread
  of a primitive has none of the fields of a message.
\<close>

definition normalize_entry :: "string \<times> raw \<Rightarrow> js_error + chat_message" where
  "normalize_entry e =
     (case e of (firebaseKey, msgData) \<Rightarrow>
        (case msgData of
           RNull \<Rightarrow> Inl TypeError
         | RPrim \<Rightarrow> Inr (no_fields\<lparr>key := Some firebaseKey\<rparr>)
         | RObj m \<Rightarrow>
             if \<not> truthy_str (key m) then Inr (m\<lparr>key := Some firebaseKey\<rparr>) else Inr m))"

text \<open>\<^verbatim>\<open>Array.prototype.map\<close> with a callback that can throw: the first throw ends it.\<close>

fun map_throwing :: "('a \<Rightarrow> 'e + 'b) \<Rightarrow> 'a list \<Rightarrow> 'e + 'b list" where
  "map_throwing f [] = Inr []"
| "map_throwing f (x # xs) =
     (case f x of
        Inl e \<Rightarrow> Inl e
      | Inr y \<Rightarrow> (case map_throwing f xs of Inl e \<Rightarrow> Inl e | Inr ys \<Rightarrow> Inr (y # ys)))"

text \<open>\<^verbatim>\<open>a.commandTimestamp || a.timestamp || 0\<close>\<close>

definition sort_time :: "chat_message \<Rightarrow> int" where
  "sort_time a =
     (if truthy_num (commandTimestamp a) then (case commandTimestamp a of Some n \<Rightarrow> n | None \<Rightarrow> 0)
      else if truthy_num (timestamp a) then (case timestamp a of Some n \<Rightarrow> n | None \<Rightarrow> 0)
      else 0)"

definition compare_time :: "chat_message \<Rightarrow> chat_message \<Rightarrow> int" where
  "compare_time a b = (let aTime = sort_time a; bTime = sort_time b in aTime - bTime)"

text \<open>
  \<^verbatim>\<open>Array.prototype.sort\<close> with a comparator. ECMAScript asks the sort to be stable and,
  for a consistent comparator, to put \<^verbatim>\<open>a\<close> before \<^verbatim>\<open>b\<close> when the comparator is
  negative; a stable insertion sort is one such sort.
\<close>

fun insert_by :: "('a \<Rightarrow> 'a \<Rightarrow> int) \<Rightarrow> 'a \<Rightarrow> 'a list \<Rightarrow> 'a list" where
  "insert_by cmp x [] = [x]"
| "insert_by cmp x (y # ys) = (if cmp x y \<le> 0 then x # y # ys else y # insert_by cmp x ys)"

definition js_sort :: "('a \<Rightarrow> 'a \<Rightarrow> int) \<Rightarrow> 'a list \<Rightarrow> 'a list" where
  "js_sort cmp xs = foldr (insert_by cmp) xs []"

text \<open>
  \<^verbatim>\<open>handleValue\<close>: the argument is \<^verbatim>\<open>snapshot.val()\<close>, \<^verbatim>\<open>None\<close> for a falsy value and
  otherwise its entries in the order of \<^verbatim>\<open>Object.entries\<close>; the result is the list
  handed to \<^verbatim>\<open>setChatMessages\<close>. The \<^verbatim>\<open>catch\<close> hands it the empty list.
\<close>

definition handleValue :: "(string \<times> raw) list option \<Rightarrow> chat_message list" where
  "handleValue snapshot =
     (case snapshot of
        None \<Rightarrow> []
      | Some data \<Rightarrow>
          (case map_throwing normalize_entry data of
             Inl error \<Rightarrow> []
           | Inr messages \<Rightarrow> js_sort compare_time messages))"



section \<open>The command dispatcher\<close>

text \<open>
  The database as \<^verbatim>\<open>sendCommand\<close> sees it. \<^verbatim>\<open>push\<close> hands out the next key of
  \<open>key_supply\<close> without writing (and throws when there is none); each \<^verbatim>\<open>set\<close> consumes
  one entry of \<open>set_faults\<close>, \<open>True\<close> meaning that this write is rejected, and an
  exhausted list meaning that writes succeed. \<open>calls\<close> is the trace of the calls made.
\<close>

datatype port_call =
    PushCall string
  | SetCall string chat_message
  | SetRejected string chat_message

record log_port =
  key_supply :: "string list"
  set_faults :: "bool list"
  stored :: "string \<Rightarrow> chat_message option"
  calls :: "port_call list"

definition push :: "log_port \<Rightarrow> js_error + (string \<times> log_port)" where
  "push p =
     (case key_supply p of
        [] \<Rightarrow> Inl TransportFailure
      | k # ks \<Rightarrow> Inr (k, p\<lparr>key_supply := ks, calls := calls p @ [PushCall k]\<rparr>))"

definition set_ref :: "string \<Rightarrow> chat_message \<Rightarrow> log_port \<Rightarrow> js_error option \<times> log_port" where
  "set_ref k m p =
     (case set_faults p of
        True # fs \<Rightarrow> (Some TransportFailure, p\<lparr>set_faults := fs, calls := calls p @ [SetRejected k m]\<rparr>)
      | False # fs \<Rightarrow> (None, p\<lparr>set_faults := fs, stored := (stored p)(k \<mapsto> m), calls := calls p @ [SetCall k m]\<rparr>)
      | [] \<Rightarrow> (None, p\<lparr>stored := (stored p)(k \<mapsto> m), calls := calls p @ [SetCall k m]\<rparr>))"

text \<open>The promise an \<^verbatim>\<open>async\<close> function returns, once settled.\<close>

datatype 'a promise = Fulfilled 'a | Rejected js_error

record dispatch_run =
  settled :: "unit promise"
  port :: log_port
  console_errors :: "js_error list"

text \<open>
  \<^verbatim>\<open>sendCommand\<close>; \<open>now\<close> is the value of \<^verbatim>\<open>Date.now()\<close>. The \<^verbatim>\<open>catch\<close> block
  logs the error with \<^verbatim>\<open>console.error\<close> and the function returns normally.
\<close>

definition sendCommand :: "ServerCommands option \<Rightarrow> int \<Rightarrow> log_port \<Rightarrow> dispatch_run" where
  "sendCommand cmd now p =
     (case cmd of
        None \<Rightarrow> \<lparr>settled = Fulfilled (), port = p, console_errors = []\<rparr>
      | Some c \<Rightarrow>
          (case push p of
             Inl error \<Rightarrow> \<lparr>settled = Fulfilled (), port = p, console_errors = [error]\<rparr>
           | Inr (pushKey, p1) \<Rightarrow>
               (let chatMessage = \<lparr>key = Some pushKey, command = Some (command_str c),
                      commandTimestamp = Some now, status = Some (status_str BEFORE_UPLOADED),
                      response = None, responseTimestamp = None, timestamp = None\<rparr>
                in (case set_ref pushKey chatMessage p1 of
                      (Some error, p2) \<Rightarrow>
                        \<lparr>settled = Fulfilled (), port = p2, console_errors = [error]\<rparr>
                    | (None, p2) \<Rightarrow>
                        (case set_ref pushKey (chatMessage\<lparr>status := Some (status_str UPLOADED)\<rparr>) p2 of
                           (Some error, p3) \<Rightarrow>
                             \<lparr>settled = Fulfilled (), port = p3, console_errors = [error]\<rparr>
                         | (None, p3) \<Rightarrow>
                             \<lparr>settled = Fulfilled (), port = p3, console_errors = []\<rparr>)))))"

text \<open>A database that answers every call, for the examples.\<close>

definition idle_port :: log_port where
  "idle_port = \<lparr>key_supply = [''-Na1'', ''-Na2''], set_faults = [], stored = Map.empty, calls = []\<rparr>"

section \<open>Strings: auxiliary facts\<close>


lemma voice_is_firebase: "isFirebaseVoiceUrl v \<Longrightarrow> isFirebaseUrl v"
  by (auto simp: isFirebaseVoiceUrl_def split: if_splits)

lemma image_is_firebase: "isFirebaseImageUrl v \<Longrightarrow> isFirebaseUrl v"
  by (auto simp: isFirebaseImageUrl_def split: if_splits)



lemma split_on_not_empty: "split_on d s \<noteq> []"
  by (induction s) (auto split: list.splits)

lemma concat_split_on: "concat (split_on d s) = filter (\<lambda>c. c \<noteq> d) s"
  by (induction s) (auto split: list.splits)

section \<open>Precedence of the classification\<close>

lemma firebase_truthy: "isFirebaseUrl v \<Longrightarrow> truthy v"
  by (cases v) (auto simp: isFirebaseUrl_def split: if_splits)

lemma extractPath_truthy: "extractPathCoordinates v = Some pts \<Longrightarrow> truthy v"
  by (cases v) (auto simp: extractPathCoordinates_def split: if_splits)

lemma extractMap_truthy: "extractMapCoordinates v = Some c \<Longrightarrow> truthy v"
  by (cases v) (auto simp: extractMapCoordinates_def split: if_splits)

text \<open>
  Claim C1, as the code has it. The chain is evaluated for a truthy response only: a
  falsy one, the empty string among them, gets no variant. For a truthy response exactly
  one variant is produced, and each variant is produced exactly when its test is the
  first of the chain to succeed, in the order voice note, image, generic attachment,
  path, single point, plain text. By that order a response that passes the image test is
  an \<open>Image\<close>, unless the voice test before it has taken it, and never a
  \<open>GenericAttachment\<close>.
\<close>

theorem classify_first_match:
  "(classify v = None \<longleftrightarrow> \<not> truthy v)
   \<and> (classify v = Some (VoiceNote v) \<longleftrightarrow> isFirebaseVoiceUrl v)
   \<and> (classify v = Some (Image v) \<longleftrightarrow> \<not> isFirebaseVoiceUrl v \<and> isFirebaseImageUrl v)
   \<and> (classify v = Some (GenericAttachment v) \<longleftrightarrow>
         \<not> isFirebaseVoiceUrl v \<and> \<not> isFirebaseImageUrl v \<and> isFirebaseUrl v)
   \<and> (classify v = Some (Path pts) \<longleftrightarrow>
         \<not> isFirebaseUrl v \<and> extractPathCoordinates v = Some pts)
   \<and> (classify v = Some (SinglePoint c) \<longleftrightarrow>
         \<not> isFirebaseUrl v \<and> extractPathCoordinates v = None \<and> extractMapCoordinates v = Some c)
   \<and> (classify v = Some (PlainText v) \<longleftrightarrow>
         truthy v \<and> \<not> isFirebaseUrl v \<and> extractPathCoordinates v = None
         \<and> extractMapCoordinates v = None)
   \<and> (isFirebaseImageUrl u \<and> \<not> isFirebaseVoiceUrl u \<longrightarrow>
         isFirebaseUrl u \<and> classify u = Some (Image u))
   \<and> (isFirebaseImageUrl u \<longrightarrow>
         (classify u = Some (Image u) \<or> classify u = Some (VoiceNote u))
         \<and> (\<forall>w. classify u \<noteq> Some (GenericAttachment w)))"
proof -
  have fv: "isFirebaseVoiceUrl v \<Longrightarrow> isFirebaseUrl v" "isFirebaseImageUrl v \<Longrightarrow> isFirebaseUrl v"
    by (rule voice_is_firebase, assumption) (rule image_is_firebase, assumption)
  have fu: "isFirebaseImageUrl u \<Longrightarrow> isFirebaseUrl u"
    by (rule image_is_firebase)
  have tv: "isFirebaseUrl v \<Longrightarrow> truthy v" "isFirebaseUrl u \<Longrightarrow> truthy u"
    by (rule firebase_truthy, assumption)+
  have pv: "\<And>p. extractPathCoordinates v = Some p \<Longrightarrow> truthy v"
    by (rule extractPath_truthy)
  have mv: "\<And>p. extractMapCoordinates v = Some p \<Longrightarrow> truthy v"
    by (rule extractMap_truthy)
  show ?thesis
    using fv fu tv pv mv by (auto simp: classify_def split: option.splits)
qed

theorem classify_first_match_witness:
  "isFirebaseImageUrl (JStr ''https://firebasestorage.googleapis.com/selfies/photo_1.jpg'')
   \<and> \<not> isFirebaseVoiceUrl (JStr ''https://firebasestorage.googleapis.com/selfies/photo_1.jpg'')
   \<and> isFirebaseUrl (JStr ''https://firebasestorage.googleapis.com/selfies/photo_1.jpg'')
   \<and> classify (JStr ''https://firebasestorage.googleapis.com/selfies/photo_1.jpg'')
       = Some (Image (JStr ''https://firebasestorage.googleapis.com/selfies/photo_1.jpg''))
   \<and> classify (JStr ''https://firebasestorage.googleapis.com/selfies/photo_1.jpg'')
       \<noteq> Some (GenericAttachment (JStr ''https://firebasestorage.googleapis.com/selfies/photo_1.jpg''))"
proof -
  have h: "isFirebaseImageUrl (JStr ''https://firebasestorage.googleapis.com/selfies/photo_1.jpg'')
      \<and> \<not> isFirebaseVoiceUrl (JStr ''https://firebasestorage.googleapis.com/selfies/photo_1.jpg'')"
    by code_simp
  show ?thesis
    using h
      classify_first_match[where v = "JStr ''https://firebasestorage.googleapis.com/selfies/photo_1.jpg''"
        and u = "JStr ''https://firebasestorage.googleapis.com/selfies/photo_1.jpg''"]
    by blast
qed

text \<open>The empty response string: the chain is not evaluated and no variant is produced.\<close>

theorem empty_response_no_variant_counterexample:
  "classify (JStr []) = None \<and> classify (JStr []) \<noteq> Some (PlainText (JStr []))"
  by (simp add: classify_def)

section \<open>Map links\<close>











section \<open>Paths\<close>






















section \<open>Degenerate input\<close>




section \<open>The projector: auxiliary facts\<close>

lemma insert_by_compare_time: "insert_by compare_time x ys = insort_key sort_time x ys"
  by (induction ys) (auto simp: compare_time_def)

lemma js_sort_compare_time: "js_sort compare_time xs = sort_key sort_time xs"
proof -
  have "insert_by compare_time = insort_key sort_time"
    by (intro ext) (rule insert_by_compare_time)
  then show ?thesis by (simp add: js_sort_def sort_key_def)
qed

lemma map_throwing_Inr_iff: "map_throwing f xs = Inr ys \<longleftrightarrow> map f xs = map Inr ys"
proof (induction xs arbitrary: ys)
  case Nil
  then show ?case by auto
next
  case (Cons x xs)
  show ?case
  proof (cases "f x")
    case (Inl e)
    then show ?thesis by (cases ys) auto
  next
    case (Inr y)
    show ?thesis
    proof (cases ys)
      case Nil
      with Inr show ?thesis by (simp split: sum.splits)
    next
      case (Cons z zs)
      with Inr Cons.IH[of zs] show ?thesis by (auto split: sum.splits)
    qed
  qed
qed

lemma map_throwing_Inl:
  "x \<in> set xs \<Longrightarrow> f x = Inl e \<Longrightarrow> \<exists>e'. map_throwing f xs = Inl e'"
  by (induction xs) (auto split: sum.splits)

lemma map_throwing_defined:
  "\<forall>x \<in> set xs. \<exists>y. f x = Inr y \<Longrightarrow> \<exists>ys. map_throwing f xs = Inr ys"
  by (induction xs) (auto split: sum.splits)

lemma normalize_entry_Inl: "normalize_entry e = Inl err \<longleftrightarrow> snd e = RNull \<and> err = TypeError"
  by (cases e) (auto simp: normalize_entry_def split: raw.splits)

lemma normalize_all:
  assumes "\<forall>e \<in> set es. snd e \<noteq> RNull"
  shows "\<exists>ms. map_throwing normalize_entry es = Inr ms"
proof (rule map_throwing_defined, rule ballI)
  fix e assume "e \<in> set es"
  then have "snd e \<noteq> RNull" using assms by blast
  then show "\<exists>y. normalize_entry e = Inr y"
    using normalize_entry_Inl[of e] by (cases "normalize_entry e") auto
qed

lemma handleValue_Inr:
  "map_throwing normalize_entry es = Inr ms \<Longrightarrow> handleValue (Some es) = sort_key sort_time ms"
  by (simp add: handleValue_def js_sort_compare_time)







section \<open>Records that cannot be normalised\<close>

text \<open>
  Claim C4, as the code has it. The projector never throws, and an absent snapshot gives
  the empty sequence. It drops no record on its own: when no record of the snapshot is
  \<^verbatim>\<open>null\<close>, every record is normalised and the emitted sequence holds exactly the
  normalised records, as many as the snapshot has. When some record is \<^verbatim>\<open>null\<close> the
  exception is caught around the whole conversion and the emitted sequence is empty.
\<close>

theorem projection_all_or_nothing:
  "handleValue None = []
   \<and> ((\<forall>e \<in> set es. snd e \<noteq> RNull) \<longrightarrow>
        (\<exists>ms. map normalize_entry es = map Inr ms \<and> mset (handleValue (Some es)) = mset ms)
        \<and> length (handleValue (Some es)) = length es)
   \<and> ((\<exists>e \<in> set es'. snd e = RNull) \<longrightarrow> handleValue (Some es') = [])"
proof (intro conjI impI)
  show "handleValue None = []" by (simp add: handleValue_def)
next
  assume a: "\<forall>e \<in> set es. snd e \<noteq> RNull"
  then obtain ms where ms: "map_throwing normalize_entry es = Inr ms"
    using normalize_all by blast
  then have m: "map normalize_entry es = map Inr ms"
    by (simp add: map_throwing_Inr_iff)
  have h: "handleValue (Some es) = sort_key sort_time ms"
    using ms by (rule handleValue_Inr)
  show "\<exists>ms. map normalize_entry es = map Inr ms \<and> mset (handleValue (Some es)) = mset ms"
    using m h by auto
  have "length ms = length es"
    using arg_cong[OF m, of length] by simp
  then show "length (handleValue (Some es)) = length es"
    using h by simp
next
  assume "\<exists>e \<in> set es'. snd e = RNull"
  then obtain e where e: "e \<in> set es'" "snd e = RNull"
    by blast
  have "normalize_entry e = Inl TypeError"
    using e(2) normalize_entry_Inl[of e TypeError] by simp
  with e(1) obtain e' where "map_throwing normalize_entry es' = Inl e'"
    using map_throwing_Inl[of e es' normalize_entry TypeError] by blast
  then show "handleValue (Some es') = []"
    by (simp add: handleValue_def)
qed

theorem projection_all_or_nothing_witness:
  "length (handleValue (Some [(''s1'', RPrim), (''s2'', RObj (no_fields\<lparr>commandTimestamp := Some 3\<rparr>))])) = 2
   \<and> handleValue (Some [(''s1'', RNull), (''s2'', RObj (no_fields\<lparr>commandTimestamp := Some 3\<rparr>))]) = []"
proof -
  have h1: "\<forall>e \<in> set [(''s1'', RPrim), (''s2'', RObj (no_fields\<lparr>commandTimestamp := Some 3\<rparr>))]. snd e \<noteq> RNull"
    by simp
  have h2: "\<exists>e \<in> set [(''s1'', RNull), (''s2'', RObj (no_fields\<lparr>commandTimestamp := Some 3\<rparr>))]. snd e = RNull"
    by simp
  show ?thesis
    using h1 h2
      projection_all_or_nothing[of "[(''s1'', RPrim), (''s2'', RObj (no_fields\<lparr>commandTimestamp := Some 3\<rparr>))]"
        "[(''s1'', RNull), (''s2'', RObj (no_fields\<lparr>commandTimestamp := Some 3\<rparr>))]"]
    by simp
qed

text \<open>
  One \<^verbatim>\<open>null\<close> record beside a well-formed one: the emitted sequence is empty, although
  the well-formed record alone is projected to itself.
\<close>

theorem null_record_empties_snapshot_counterexample:
  "handleValue (Some [(''s1'', RNull),
       (''s2'', RObj (no_fields\<lparr>key := Some ''s2'', commandTimestamp := Some 3\<rparr>))]) = []
   \<and> handleValue (Some [(''s2'', RObj (no_fields\<lparr>key := Some ''s2'', commandTimestamp := Some 3\<rparr>))])
       = [no_fields\<lparr>key := Some ''s2'', commandTimestamp := Some 3\<rparr>]"
  by (simp add: handleValue_def normalize_entry_def no_fields_def truthy_str_def js_sort_def)

section \<open>Ordering\<close>




section \<open>Fallback key\<close>

lemma normalize_entry_fallback:
  "snd e \<noteq> RNull \<Longrightarrow>
     normalize_entry e =
       Inr (case e of (slot, v) \<Rightarrow>
              (case v of
                 RObj m \<Rightarrow> if truthy_str (key m) then m else m\<lparr>key := Some slot\<rparr>
               | RPrim \<Rightarrow> no_fields\<lparr>key := Some slot\<rparr>
               | RNull \<Rightarrow> no_fields))"
  by (cases e) (auto simp: normalize_entry_def split: raw.splits)

text \<open>
  Claim C9, as the code has it. In a snapshot whose records can all be normalised (none
  is \<^verbatim>\<open>null\<close>), the emitted sequence holds, for every record, exactly its normalised
  form: a record without a key of its own (the test is \<^verbatim>\<open>!msgData.key\<close>: the field
  absent or empty) with the name of its storage slot as key and its other fields
  untouched, a record with a key of its own unchanged. The emitted sequence is a function
  of the snapshot alone, so the same snapshot gives the same keys every time. A snapshot
  with a \<^verbatim>\<open>null\<close> record is emitted empty, and then no record carries any key.
\<close>

theorem fallback_key_assignment:
  assumes "\<forall>e \<in> set es. snd e \<noteq> RNull"
  shows "mset (handleValue (Some es))
      = mset (map (\<lambda>(slot, v).
                (case v of
                   RObj m \<Rightarrow> if truthy_str (key m) then m else m\<lparr>key := Some slot\<rparr>
                 | RPrim \<Rightarrow> no_fields\<lparr>key := Some slot\<rparr>
                 | RNull \<Rightarrow> no_fields)) es)
    \<and> ((slot, RObj m) \<in> set es \<and> \<not> truthy_str (key m) \<longrightarrow>
         m\<lparr>key := Some slot\<rparr> \<in> set (handleValue (Some es)))
    \<and> ((slot', RObj m') \<in> set es \<and> truthy_str (key m') \<longrightarrow>
         m' \<in> set (handleValue (Some es)))"
proof -
  let ?f = "\<lambda>(slot, v).
                (case v of
                   RObj m \<Rightarrow> if truthy_str (key m) then m else m\<lparr>key := Some slot\<rparr>
                 | RPrim \<Rightarrow> no_fields\<lparr>key := Some slot\<rparr>
                 | RNull \<Rightarrow> no_fields)"
  have "map normalize_entry es = map (\<lambda>e. Inr (?f e)) es"
    using assms by (intro map_cong refl) (simp add: normalize_entry_fallback)
  then have "map normalize_entry es = map Inr (map ?f es)"
    by simp
  then have "map_throwing normalize_entry es = Inr (map ?f es)"
    by (simp add: map_throwing_Inr_iff)
  then have h: "handleValue (Some es) = sort_key sort_time (map ?f es)"
    by (rule handleValue_Inr)
  have m1: "mset (handleValue (Some es)) = mset (map ?f es)"
    unfolding h by simp
  have s: "set (handleValue (Some es)) = ?f ` set es"
    unfolding h by simp
  show ?thesis
  proof (intro conjI impI)
    show "mset (handleValue (Some es)) = mset (map ?f es)"
      by (rule m1)
  next
    assume a: "(slot, RObj m) \<in> set es \<and> \<not> truthy_str (key m)"
    have e: "?f (slot, RObj m) = m\<lparr>key := Some slot\<rparr>"
      using a by simp
    have "?f (slot, RObj m) \<in> ?f ` set es"
      using a by (intro imageI) simp
    then show "m\<lparr>key := Some slot\<rparr> \<in> set (handleValue (Some es))"
      unfolding s e .
  next
    assume a: "(slot', RObj m') \<in> set es \<and> truthy_str (key m')"
    have e: "?f (slot', RObj m') = m'"
      using a by simp
    have "?f (slot', RObj m') \<in> ?f ` set es"
      using a by (intro imageI) simp
    then show "m' \<in> set (handleValue (Some es))"
      unfolding s e .
  qed
qed

theorem fallback_key_assignment_witness:
  "no_fields\<lparr>key := Some ''s1'', commandTimestamp := Some 9\<rparr>
     \<in> set (handleValue (Some
         [(''s1'', RObj (no_fields\<lparr>commandTimestamp := Some 9\<rparr>)),
          (''s2'', RObj (no_fields\<lparr>key := Some []\<rparr>))]))
   \<and> no_fields\<lparr>key := Some ''s2''\<rparr>
     \<in> set (handleValue (Some
         [(''s1'', RObj (no_fields\<lparr>commandTimestamp := Some 9\<rparr>)),
          (''s2'', RObj (no_fields\<lparr>key := Some []\<rparr>))]))
   \<and> no_fields\<lparr>key := Some ''own'', commandTimestamp := Some 4\<rparr>
     \<in> set (handleValue (Some
         [(''s3'', RObj (no_fields\<lparr>key := Some ''own'', commandTimestamp := Some 4\<rparr>))]))"
proof -
  let ?es = "[(''s1'', RObj (no_fields\<lparr>commandTimestamp := Some 9\<rparr>)),
          (''s2'', RObj (no_fields\<lparr>key := Some []\<rparr>))]"
  let ?es' = "[(''s3'', RObj (no_fields\<lparr>key := Some ''own'', commandTimestamp := Some 4\<rparr>))]"
  have h1: "\<forall>e \<in> set ?es. snd e \<noteq> RNull" by simp
  have h2: "(''s1'', RObj (no_fields\<lparr>commandTimestamp := Some 9\<rparr>)) \<in> set ?es
      \<and> \<not> truthy_str (key (no_fields\<lparr>commandTimestamp := Some 9\<rparr>))"
    by (simp add: no_fields_def truthy_str_def)
  have h3: "(''s2'', RObj (no_fields\<lparr>key := Some []\<rparr>)) \<in> set ?es
      \<and> \<not> truthy_str (key (no_fields\<lparr>key := Some []\<rparr>))"
    by (simp add: no_fields_def truthy_str_def)
  have h4: "\<forall>e \<in> set ?es'. snd e \<noteq> RNull" by simp
  have h5: "(''s3'', RObj (no_fields\<lparr>key := Some ''own'', commandTimestamp := Some 4\<rparr>)) \<in> set ?es'
      \<and> truthy_str (key (no_fields\<lparr>key := Some ''own'', commandTimestamp := Some 4\<rparr>))"
    by (simp add: no_fields_def truthy_str_def)
  have a: "(no_fields\<lparr>commandTimestamp := Some 9\<rparr>)\<lparr>key := Some ''s1''\<rparr> \<in> set (handleValue (Some ?es))"
    using fallback_key_assignment[OF h1, where slot = "''s1''"
        and m = "no_fields\<lparr>commandTimestamp := Some 9\<rparr>", THEN conjunct2, THEN conjunct1] h2
    by (rule mp)
  have b: "(no_fields\<lparr>key := Some []\<rparr>)\<lparr>key := Some ''s2''\<rparr> \<in> set (handleValue (Some ?es))"
    using fallback_key_assignment[OF h1, where slot = "''s2''"
        and m = "no_fields\<lparr>key := Some []\<rparr>", THEN conjunct2, THEN conjunct1] h3
    by (rule mp)
  have c: "no_fields\<lparr>key := Some ''own'', commandTimestamp := Some 4\<rparr> \<in> set (handleValue (Some ?es'))"
    using fallback_key_assignment[OF h4, where slot' = "''s3''"
        and m' = "no_fields\<lparr>key := Some ''own'', commandTimestamp := Some 4\<rparr>",
        THEN conjunct2, THEN conjunct2] h5
    by (rule mp)
  have e1: "(no_fields\<lparr>commandTimestamp := Some 9\<rparr>)\<lparr>key := Some ''s1''\<rparr>
      = no_fields\<lparr>key := Some ''s1'', commandTimestamp := Some 9\<rparr>"
    by (simp add: no_fields_def)
  have e2: "(no_fields\<lparr>key := Some []\<rparr>)\<lparr>key := Some ''s2''\<rparr> = no_fields\<lparr>key := Some ''s2''\<rparr>"
    by (simp add: no_fields_def)
  show ?thesis
    using a b c unfolding e1 e2 by (intro conjI)
qed

text \<open>
  A record without a key beside a \<^verbatim>\<open>null\<close> record: the emitted sequence is empty, so
  the record is not there with the name of its slot as key, although alone it is.
\<close>

theorem keyless_record_lost_counterexample:
  "handleValue (Some [(''s1'', RObj (no_fields\<lparr>commandTimestamp := Some 9\<rparr>)), (''s2'', RNull)]) = []
   \<and> no_fields\<lparr>key := Some ''s1'', commandTimestamp := Some 9\<rparr>
       \<notin> set (handleValue (Some [(''s1'', RObj (no_fields\<lparr>commandTimestamp := Some 9\<rparr>)), (''s2'', RNull)]))
   \<and> handleValue (Some [(''s1'', RObj (no_fields\<lparr>commandTimestamp := Some 9\<rparr>))])
       = [no_fields\<lparr>key := Some ''s1'', commandTimestamp := Some 9\<rparr>]"
  by (simp add: handleValue_def normalize_entry_def no_fields_def truthy_str_def js_sort_def)

section \<open>Dispatch\<close>

text \<open>
  Claim C6. When a command is dispatched and no error is caught, exactly one key has
  been taken from the database, and the calls made are, in this order and nothing else:
  the allocation of that key, one write of the record with status \<^verbatim>\<open>BEFORE_UPLOADED\<close>
  and the time of the call as command timestamp, and one write of the same record with
  status \<^verbatim>\<open>UPLOADED\<close>, which is what the database then holds under the key.
\<close>

theorem dispatch_success_trace:
  assumes "console_errors (sendCommand (Some c) now p) = []"
  shows "\<exists>k ks. key_supply p = k # ks
           \<and> settled (sendCommand (Some c) now p) = Fulfilled ()
           \<and> key_supply (port (sendCommand (Some c) now p)) = ks
           \<and> calls (port (sendCommand (Some c) now p)) = calls p @
               [PushCall k,
                SetCall k \<lparr>key = Some k, command = Some (command_str c),
                   commandTimestamp = Some now, status = Some ''BEFORE_UPLOADED'',
                   response = None, responseTimestamp = None, timestamp = None\<rparr>,
                SetCall k \<lparr>key = Some k, command = Some (command_str c),
                   commandTimestamp = Some now, status = Some ''UPLOADED'',
                   response = None, responseTimestamp = None, timestamp = None\<rparr>]
           \<and> stored (port (sendCommand (Some c) now p)) = (stored p)(k \<mapsto>
                \<lparr>key = Some k, command = Some (command_str c),
                   commandTimestamp = Some now, status = Some ''UPLOADED'',
                   response = None, responseTimestamp = None, timestamp = None\<rparr>)"
  using assms
  by (auto simp: sendCommand_def push_def set_ref_def Let_def split: list.splits bool.splits)

theorem dispatch_success_trace_witness:
  "console_errors (sendCommand (Some GetLocation) 17 idle_port) = []
   \<and> calls (port (sendCommand (Some GetLocation) 17 idle_port)) =
       [PushCall ''-Na1'',
        SetCall ''-Na1'' \<lparr>key = Some ''-Na1'', command = Some ''GetLocation'',
           commandTimestamp = Some 17, status = Some ''BEFORE_UPLOADED'',
           response = None, responseTimestamp = None, timestamp = None\<rparr>,
        SetCall ''-Na1'' \<lparr>key = Some ''-Na1'', command = Some ''GetLocation'',
           commandTimestamp = Some 17, status = Some ''UPLOADED'',
           response = None, responseTimestamp = None, timestamp = None\<rparr>]"
proof -
  have h: "console_errors (sendCommand (Some GetLocation) 17 idle_port) = []"
    by (simp add: sendCommand_def push_def set_ref_def idle_port_def)
  show ?thesis
    using h dispatch_success_trace[OF h] by (auto simp: idle_port_def)
qed

text \<open>
  Claim C7, as the code has it. Dispatch without a command does nothing: the database is
  untouched (no key taken, no call made, nothing stored), nothing is logged, and the
  function returns normally, without an error value.
\<close>

theorem dispatch_null_noop:
  "sendCommand None now p = \<lparr>settled = Fulfilled (), port = p, console_errors = []\<rparr>"
  by (simp add: sendCommand_def)

text \<open>
  Dispatch without a command does not return an error: its promise is fulfilled, as the
  promise of a dispatch that went through is.
\<close>

theorem dispatch_null_no_error_counterexample:
  "settled (sendCommand None 17 idle_port) = Fulfilled ()
   \<and> settled (sendCommand None 17 idle_port) \<noteq> Rejected TransportFailure
   \<and> settled (sendCommand None 17 idle_port) \<noteq> Rejected TypeError
   \<and> settled (sendCommand None 17 idle_port) = settled (sendCommand (Some GetLocation) 17 idle_port)"
  by (simp add: sendCommand_def push_def set_ref_def idle_port_def)

text \<open>
  Claim C8, as the code has it. A failure of the database during dispatch is caught inside
  dispatch: the promise is fulfilled whatever happens, so the caller is told nothing. When
  a write is rejected, the error is logged to the console and the rejected write is the
  last call made; when no key can be allocated, the error is logged and the database is
  left as it was.
\<close>

theorem dispatch_failure_swallowed:
  "settled (sendCommand cmd now p) = Fulfilled ()
   \<and> (SetRejected k m \<in> set (calls (port (sendCommand cmd now p)))
        \<and> SetRejected k m \<notin> set (calls p) \<longrightarrow>
      console_errors (sendCommand cmd now p) = [TransportFailure]
      \<and> last (calls (port (sendCommand cmd now p))) = SetRejected k m)
   \<and> (key_supply p' = [] \<longrightarrow>
      sendCommand (Some c) now p'
        = \<lparr>settled = Fulfilled (), port = p', console_errors = [TransportFailure]\<rparr>)"
  by (auto simp: sendCommand_def push_def set_ref_def Let_def
      split: list.splits bool.splits option.splits)

theorem dispatch_failure_swallowed_witness:
  "SetRejected ''-Na1'' \<lparr>key = Some ''-Na1'', command = Some ''GetLocation'',
       commandTimestamp = Some 17, status = Some ''UPLOADED'',
       response = None, responseTimestamp = None, timestamp = None\<rparr>
     \<in> set (calls (port (sendCommand (Some GetLocation) 17 (idle_port\<lparr>set_faults := [False, True]\<rparr>))))
   \<and> console_errors (sendCommand (Some GetLocation) 17 (idle_port\<lparr>set_faults := [False, True]\<rparr>))
       = [TransportFailure]
   \<and> settled (sendCommand (Some GetLocation) 17 (idle_port\<lparr>set_faults := [False, True]\<rparr>))
       = Fulfilled ()
   \<and> key_supply (idle_port\<lparr>key_supply := []\<rparr>) = []
   \<and> console_errors (sendCommand (Some GetLocation) 17 (idle_port\<lparr>key_supply := []\<rparr>))
       = [TransportFailure]"
proof -
  let ?m = "\<lparr>key = Some ''-Na1'', command = Some ''GetLocation'',
       commandTimestamp = Some 17, status = Some ''UPLOADED'',
       response = None, responseTimestamp = None, timestamp = None\<rparr>"
  let ?p = "idle_port\<lparr>set_faults := [False, True]\<rparr>"
  have h1: "SetRejected ''-Na1'' ?m \<in> set (calls (port (sendCommand (Some GetLocation) 17 ?p)))"
    by (simp add: sendCommand_def push_def set_ref_def idle_port_def Let_def)
  have h2: "SetRejected ''-Na1'' ?m \<notin> set (calls ?p)"
    by (simp add: idle_port_def)
  have h3: "key_supply (idle_port\<lparr>key_supply := []\<rparr>) = []"
    by simp
  show ?thesis
    using h1 h2 h3
      dispatch_failure_swallowed[of "Some GetLocation" 17 ?p "''-Na1''" ?m
        "idle_port\<lparr>key_supply := []\<rparr>" GetLocation]
    by simp
qed

text \<open>
  The first write is rejected: the promise of dispatch is fulfilled all the same, as it
  is when both writes go through, and the record never reaches the database.
\<close>

theorem dispatch_failure_not_reported_counterexample:
  "calls (port (sendCommand (Some GetLocation) 17 (idle_port\<lparr>set_faults := [True]\<rparr>)))
     = [PushCall ''-Na1'',
        SetRejected ''-Na1'' \<lparr>key = Some ''-Na1'', command = Some ''GetLocation'',
           commandTimestamp = Some 17, status = Some ''BEFORE_UPLOADED'',
           response = None, responseTimestamp = None, timestamp = None\<rparr>]
   \<and> settled (sendCommand (Some GetLocation) 17 (idle_port\<lparr>set_faults := [True]\<rparr>)) = Fulfilled ()
   \<and> settled (sendCommand (Some GetLocation) 17 (idle_port\<lparr>set_faults := [True]\<rparr>))
       = settled (sendCommand (Some GetLocation) 17 idle_port)"
  by (simp add: sendCommand_def push_def set_ref_def idle_port_def)

end
